theory Spec2Isabelle
  imports Complex_Main
begin

section \<open>Vectors (pga/point.go)\<close>

text \<open>
  The Go code computes on \<open>float64\<close>.  The specification describes every operation as a
  total function over the reals, and the properties below are statements of exact real
  arithmetic; the embedding therefore takes \<open>float64\<close> as \<^typ>\<open>real\<close>, with
  \<open>math.Sqrt\<close>, \<open>math.Sin\<close> and \<open>math.Cos\<close> as \<^const>\<open>sqrt\<close>, \<^const>\<open>sin\<close> and
  \<^const>\<open>cos\<close>.  Rounding, infinities and NaN are outside this model.
\<close>

text \<open>\<open>type Vec3 struct{ X, Y, Z float64 }\<close>\<close>

record Vec3 =
  X :: real
  Y :: real
  Z :: real

definition V :: "real \<Rightarrow> real \<Rightarrow> real \<Rightarrow> Vec3" where
  "V x y z = \<lparr>X = x, Y = y, Z = z\<rparr>"

definition Add :: "Vec3 \<Rightarrow> Vec3 \<Rightarrow> Vec3" where
  "Add a b = \<lparr>X = X a + X b, Y = Y a + Y b, Z = Z a + Z b\<rparr>"

definition Sub :: "Vec3 \<Rightarrow> Vec3 \<Rightarrow> Vec3" where
  "Sub a b = \<lparr>X = X a - X b, Y = Y a - Y b, Z = Z a - Z b\<rparr>"

definition Scale :: "Vec3 \<Rightarrow> real \<Rightarrow> Vec3" where
  "Scale a s = \<lparr>X = s * X a, Y = s * Y a, Z = s * Z a\<rparr>"

definition Dot :: "Vec3 \<Rightarrow> Vec3 \<Rightarrow> real" where
  "Dot a b = X a * X b + Y a * Y b + Z a * Z b"

definition Cross :: "Vec3 \<Rightarrow> Vec3 \<Rightarrow> Vec3" where
  "Cross a b = \<lparr>X = Y a * Z b - Z a * Y b,
                 Y = Z a * X b - X a * Z b,
                 Z = X a * Y b - Y a * X b\<rparr>"

definition Norm :: "Vec3 \<Rightarrow> real" where
  "Norm a = sqrt (Dot a a)"

definition Normalized :: "Vec3 \<Rightarrow> Vec3" where
  "Normalized a = (let n = Norm a in if n = 0 then a else Scale a (1 / n))"

definition Neg :: "Vec3 \<Rightarrow> Vec3" where
  "Neg a = \<lparr>X = - X a, Y = - Y a, Z = - Z a\<rparr>"

section \<open>Quaternions and motors (pga/motor.go)\<close>

text \<open>
  \<open>type quat struct { w, x, y, z float64 }\<close>.  The fields are written \<open>qw\<close>, \<open>qx\<close>,
  \<open>qy\<close>, \<open>qz\<close> here, so that they do not capture the variables of the same name.
\<close>

record quat =
  qw :: real
  qx :: real
  qy :: real
  qz :: real

text \<open>The constructor \<open>q(w, x, y, z)\<close>.\<close>

definition mkq :: "real \<Rightarrow> real \<Rightarrow> real \<Rightarrow> real \<Rightarrow> quat" where
  "mkq w x y z = \<lparr>qw = w, qx = x, qy = y, qz = z\<rparr>"

text \<open>\<open>func (a quat) Mul(b quat) quat\<close>: the Hamilton product.\<close>

definition quat_Mul :: "quat \<Rightarrow> quat \<Rightarrow> quat" where
  "quat_Mul a b =
     \<lparr>qw = qw a * qw b - qx a * qx b - qy a * qy b - qz a * qz b,
      qx = qw a * qx b + qx a * qw b + qy a * qz b - qz a * qy b,
      qy = qw a * qy b - qx a * qz b + qy a * qw b + qz a * qx b,
      qz = qw a * qz b + qx a * qy b - qy a * qx b + qz a * qw b\<rparr>"

definition quat_Conj :: "quat \<Rightarrow> quat" where
  "quat_Conj a = \<lparr>qw = qw a, qx = - qx a, qy = - qy a, qz = - qz a\<rparr>"

definition quat_Norm :: "quat \<Rightarrow> real" where
  "quat_Norm a = sqrt (qw a * qw a + qx a * qx a + qy a * qy a + qz a * qz a)"

definition quat_Normalize :: "quat \<Rightarrow> quat" where
  "quat_Normalize a =
     (let n = quat_Norm a in
      if n = 0 then mkq 1 0 0 0 else mkq (qw a / n) (qx a / n) (qy a / n) (qz a / n))"

text \<open>\<open>func pure(v Vec3) quat\<close>\<close>

definition pure_quat :: "Vec3 \<Rightarrow> quat" where
  "pure_quat v = \<lparr>qw = 0, qx = X v, qy = Y v, qz = Z v\<rparr>"

text \<open>
  \<open>type Motor struct { r quat; d quat }\<close>: the real (rotation) part and the dual part,
  written \<open>mr\<close> and \<open>md\<close>.
\<close>

record Motor =
  mr :: quat
  md :: quat

definition Identity :: Motor where
  "Identity = \<lparr>mr = mkq 1 0 0 0, md = mkq 0 0 0 0\<rparr>"

definition FromAxisAngle :: "Vec3 \<Rightarrow> real \<Rightarrow> Motor" where
  "FromAxisAngle u theta =
     (let uhat = Normalized u;
          half = 0.5 * theta;
          s = sin half;
          r = mkq (cos half) (X uhat * s) (Y uhat * s) (Z uhat * s)
      in \<lparr>mr = r, md = mkq 0 0 0 0\<rparr>)"

definition Translator :: "Vec3 \<Rightarrow> Motor" where
  "Translator t = \<lparr>mr = mkq 1 0 0 0, md = mkq 0 (0.5 * X t) (0.5 * Y t) (0.5 * Z t)\<rparr>"

text \<open>\<open>func (a Motor) Mul(b Motor) Motor\<close>\<close>

definition Mul :: "Motor \<Rightarrow> Motor \<Rightarrow> Motor" where
  "Mul a b =
     (let r = quat_Mul (mr a) (mr b);
          d = quat_Mul (mr a) (md b);
          d' = \<lparr>qw = qw d + qw (quat_Mul (md a) (mr b)),
                qx = qx d + qx (quat_Mul (md a) (mr b)),
                qy = qy d + qy (quat_Mul (md a) (mr b)),
                qz = qz d + qz (quat_Mul (md a) (mr b))\<rparr>
      in \<lparr>mr = r, md = d'\<rparr>)"

text \<open>\<open>func Screw(p Vec3, u Vec3, theta float64, pitch float64) Motor\<close>\<close>

definition Screw :: "Vec3 \<Rightarrow> Vec3 \<Rightarrow> real \<Rightarrow> real \<Rightarrow> Motor" where
  "Screw p u theta pitch =
     (let u' = Normalized u;
          R = FromAxisAngle u' theta;
          Tpitch = Translator (Scale u' (pitch * theta));
          Tp = Translator p;
          Tm = Translator (Neg p)
      in Mul (Mul (Mul Tp R) Tm) Tpitch)"

text \<open>\<open>func (a Motor) Inv() Motor\<close>\<close>

definition Inv :: "Motor \<Rightarrow> Motor" where
  "Inv a =
     (let rc = quat_Conj (mr a);
          dr = quat_Mul (quat_Mul rc (md a)) rc
      in \<lparr>mr = rc, md = mkq (- qw dr) (- qx dr) (- qy dr) (- qz dr)\<rparr>)"

text \<open>\<open>func (a Motor) ActPoint(p Vec3) Vec3\<close>\<close>

definition ActPoint :: "Motor \<Rightarrow> Vec3 \<Rightarrow> Vec3" where
  "ActPoint a p =
     (let rp = quat_Mul (quat_Mul (mr a) (pure_quat p)) (quat_Conj (mr a));
          rot = \<lparr>X = qx rp, Y = qy rp, Z = qz rp\<rparr>;
          tr = quat_Mul (md a) (quat_Conj (mr a));
          t = \<lparr>X = 2 * qx tr, Y = 2 * qy tr, Z = 2 * qz tr\<rparr>
      in Add rot t)"

text \<open>\<open>func (a Motor) ActDir(v Vec3) Vec3\<close>\<close>

definition ActDir :: "Motor \<Rightarrow> Vec3 \<Rightarrow> Vec3" where
  "ActDir a v =
     (let rp = quat_Mul (quat_Mul (mr a) (pure_quat v)) (quat_Conj (mr a))
      in \<lparr>X = qx rp, Y = qy rp, Z = qz rp\<rparr>)"

section \<open>Jacobian helpers (pga/jacobian.go)\<close>

definition RevoluteColumn :: "Vec3 \<Rightarrow> Vec3 \<Rightarrow> Vec3 \<Rightarrow> Vec3" where
  "RevoluteColumn axisPoint axisDir toe =
     (let u = Normalized axisDir;
          r = Sub toe axisPoint
      in Cross u r)"

definition PrismaticColumn :: "Vec3 \<Rightarrow> Vec3" where
  "PrismaticColumn axisDir = Normalized axisDir"

section \<open>Auxiliary facts\<close>

text \<open>The squared norm of a quaternion, the quantity under the root in \<open>quat.Norm\<close>.\<close>

definition quat_N2 :: "quat \<Rightarrow> real" where
  "quat_N2 a = qw a * qw a + qx a * qx a + qy a * qy a + qz a * qz a"

text \<open>
  The translation vector that \<open>ActPoint\<close> decodes from a motor: twice the vector part of
  \<open>d * conj r\<close>.
\<close>

definition transl :: "Motor \<Rightarrow> Vec3" where
  "transl a = (let tr = quat_Mul (md a) (quat_Conj (mr a))
               in \<lparr>X = 2 * qx tr, Y = 2 * qy tr, Z = 2 * qz tr\<rparr>)"

lemma quat_Norm_unit_iff: "quat_Norm a = 1 \<longleftrightarrow> quat_N2 a = 1"
  by (simp add: quat_Norm_def quat_N2_def)

lemma Norm_zero_iff: "Norm a = 0 \<longleftrightarrow> X a = 0 \<and> Y a = 0 \<and> Z a = 0"
proof -
  have "X a * X a + Y a * Y a + Z a * Z a = 0 \<longleftrightarrow> X a = 0 \<and> Y a = 0 \<and> Z a = 0"
    by (metis add_nonneg_eq_0_iff mult_eq_0_iff zero_le_square add_nonneg_nonneg)
  then show ?thesis by (simp add: Norm_def Dot_def)
qed

lemmas vec_defs = V_def Add_def Sub_def Scale_def Dot_def Cross_def Neg_def
lemmas quat_defs = mkq_def quat_Mul_def quat_Conj_def pure_quat_def quat_N2_def
lemmas motor_defs = Identity_def Translator_def Mul_def Inv_def ActPoint_def ActDir_def
lemmas ctor_defs = FromAxisAngle_def Normalized_def Norm_def quat_Norm_def

subsection \<open>Normalisation of vectors\<close>

lemma nonzero_Norm: "a \<noteq> V 0 0 0 \<Longrightarrow> Norm a \<noteq> 0"
  by (cases a) (simp add: Norm_zero_iff V_def)

lemma Dot_Normalized:
  assumes "Norm a \<noteq> 0"
  shows "Dot (Normalized a) (Normalized a) = 1"
proof -
  let ?s = "Dot a a"
  have nn: "0 \<le> ?s" by (simp add: Dot_def)
  have "Dot (Normalized a) (Normalized a) = (1 / Norm a) * (1 / Norm a) * ?s"
    using assms by (simp add: Normalized_def Scale_def Dot_def Let_def algebra_simps)
  also have "\<dots> = ?s / (sqrt ?s * sqrt ?s)"
    by (simp add: Norm_def)
  also have "\<dots> = 1"
    using assms nn by (simp add: Norm_def)
  finally show ?thesis .
qed

lemma Norm_Normalized: "Norm a \<noteq> 0 \<Longrightarrow> Norm (Normalized a) = 1"
  by (simp add: Norm_def Dot_Normalized)

lemma Normalized_unit: "Norm a = 1 \<Longrightarrow> Normalized a = a"
  by (simp add: Normalized_def Scale_def)

lemma Normalized_zero: "Normalized (V 0 0 0) = V 0 0 0"
  by (simp add: Normalized_def Norm_def vec_defs)

subsection \<open>Polynomial identities of the motor operations\<close>

text \<open>
  None of the following identities assumes a unit rotation part: the squared norm appears
  as an explicit factor, and the unit-norm laws are the instances where it is 1.
\<close>

lemma quat_N2_Mul: "quat_N2 (quat_Mul a b) = quat_N2 a * quat_N2 b"
  by (simp add: quat_defs algebra_simps)

lemma ActPoint_split: "ActPoint a p = Add (ActDir a p) (transl a)"
  by (simp add: ActPoint_def ActDir_def transl_def Let_def)

lemma ActPoint_Mul_gen:
  "ActPoint (Mul a b) p = Add (ActDir a (ActPoint b p)) (Scale (transl a) (quat_N2 (mr b)))"
  by (simp add: motor_defs transl_def quat_defs vec_defs Let_def algebra_simps)

lemma Scale_one: "Scale v 1 = v"
  by (simp add: Scale_def)

lemma Mul_Inv_mr: "mr (Mul m (Inv m)) = mkq (quat_N2 (mr m)) 0 0 0"
  by (simp add: motor_defs quat_defs Let_def algebra_simps)

lemma Mul_Inv_md:
  "md (Mul m (Inv m)) =
     (let e = quat_Mul (md m) (quat_Conj (mr m)); k = 1 - quat_N2 (mr m)
      in mkq (k * qw e) (k * qx e) (k * qy e) (k * qz e))"
  by (simp add: motor_defs quat_defs Let_def algebra_simps)

lemma Inv_ActPoint_gen:
  "ActPoint (Inv m) (ActPoint m p) = Scale p (quat_N2 (mr m) * quat_N2 (mr m))"
  by (simp add: motor_defs quat_defs vec_defs Let_def algebra_simps)

lemma ActPoint_Sub: "Sub (ActPoint m p) (ActPoint m q) = ActDir m (Sub p q)"
  by (simp add: motor_defs quat_defs vec_defs Let_def algebra_simps)

lemma ActDir_Dot:
  "Dot (ActDir m v) (ActDir m v) = quat_N2 (mr m) * quat_N2 (mr m) * Dot v v"
  by (simp add: motor_defs quat_defs vec_defs Let_def algebra_simps)

lemma Cross_orth: "Dot (Cross u (Sub toe c)) (Sub toe c) = 0"
  by (simp add: vec_defs algebra_simps)

subsection \<open>Rotations about an axis\<close>

lemma FromAxisAngle_N2:
  assumes "Dot (Normalized u) (Normalized u) = 1"
  shows "quat_N2 (mr (FromAxisAngle u theta)) = 1"
proof -
  define c s where "c = cos (0.5 * theta)" and "s = sin (0.5 * theta)"
  let ?h = "Normalized u"
  have cs: "c * c + s * s = 1"
    unfolding c_def s_def using sin_cos_squared_add2 [of "0.5 * theta"]
    by (simp only: power2_eq_square)
  have "quat_N2 (mr (FromAxisAngle u theta)) = c * c + s * s * Dot ?h ?h"
    unfolding FromAxisAngle_def Let_def c_def [symmetric] s_def [symmetric]
    by (simp add: quat_defs Dot_def algebra_simps)
  then show ?thesis by (simp add: assms cs)
qed

lemma axis_quat_Mul:
  assumes "hx * hx + hy * hy + hz * hz = (1::real)"
  shows "quat_Mul (mkq c1 (hx * s1) (hy * s1) (hz * s1)) (mkq c2 (hx * s2) (hy * s2) (hz * s2))
           = mkq (c1 * c2 - s1 * s2) (hx * (s1 * c2 + c1 * s2))
                 (hy * (s1 * c2 + c1 * s2)) (hz * (s1 * c2 + c1 * s2))"
proof -
  have "hx * s1 * (hx * s2) + hy * s1 * (hy * s2) + hz * s1 * (hz * s2)
          = (hx * hx + hy * hy + hz * hz) * (s1 * s2)"
    by (simp add: algebra_simps)
  then have w: "c1 * c2 - hx * s1 * (hx * s2) - hy * s1 * (hy * s2) - hz * s1 * (hz * s2)
          = c1 * c2 - s1 * s2"
    using assms by simp
  show ?thesis
    unfolding quat_Mul_def mkq_def quat.simps w
    by (simp add: algebra_simps)
qed

lemma FromAxisAngle_Mul:
  assumes "Dot (Normalized u) (Normalized u) = 1"
  shows "Mul (FromAxisAngle u t1) (FromAxisAngle u t2) = FromAxisAngle u (t1 + t2)"
proof -
  let ?h = "Normalized u"
  have half: "0.5 * (t1 + t2) = 0.5 * t1 + 0.5 * t2" by (simp add: algebra_simps)
  have h1: "X ?h * X ?h + Y ?h * Y ?h + Z ?h * Z ?h = 1"
    using assms by (simp add: Dot_def)
  have z: "quat_Mul a (mkq 0 0 0 0) = mkq 0 0 0 0" "quat_Mul (mkq 0 0 0 0) a = mkq 0 0 0 0" for a
    by (simp_all add: quat_Mul_def mkq_def)
  show ?thesis
    unfolding FromAxisAngle_def Mul_def Let_def half cos_add sin_add Motor.simps
      axis_quat_Mul [OF h1] z
    by (simp add: mkq_def)
qed

lemma Screw_zero_pitch_gen:
  "ActPoint (Mul (Mul (Mul (Translator p) \<lparr>mr = r, md = mkq 0 0 0 0\<rparr>) (Translator (Neg p)))
              (Translator (Scale u 0))) p
     = Scale p (quat_N2 r)"
  by (simp add: motor_defs quat_defs vec_defs Let_def algebra_simps)

lemma FromAxisAngle_md: "md (FromAxisAngle u theta) = mkq 0 0 0 0"
  by (simp add: FromAxisAngle_def Let_def)

lemma Screw_zero_pitch_act:
  "ActPoint (Screw p u theta 0) p
     = Scale p (quat_N2 (mr (FromAxisAngle (Normalized u) theta)))"
proof -
  obtain r where R: "FromAxisAngle (Normalized u) theta = \<lparr>mr = r, md = mkq 0 0 0 0\<rparr>"
    using FromAxisAngle_md [of "Normalized u" theta]
    by (cases "FromAxisAngle (Normalized u) theta") simp
  show ?thesis
    unfolding Screw_def Let_def R by (simp add: Screw_zero_pitch_gen)
qed

section \<open>The claims\<close>

subsection \<open>Composition\<close>

text \<open>
  C1 (as stated): for all motors \<open>a\<close>, \<open>b\<close> and points \<open>p\<close>, \<open>a.Mul(b)\<close> applies \<open>a\<close>'s motion
  first and then \<open>b\<close>'s, that is \<open>(a.Mul(b)).ActPoint(p) = b.ActPoint(a.ActPoint(p))\<close>.
  This fails: with \<open>a\<close> the half turn about the z axis and \<open>b\<close> the translation by
  \<open>(1, 0, 0)\<close>, the composite sends the origin to \<open>(-1, 0, 0)\<close>, whereas \<open>b\<close> after \<open>a\<close>
  sends it to \<open>(1, 0, 0)\<close>.
\<close>

theorem Mul_ActPoint_order_counterexample:
  "ActPoint (Mul (FromAxisAngle (V 0 0 1) pi) (Translator (V 1 0 0))) (V 0 0 0)
     \<noteq> ActPoint (Translator (V 1 0 0)) (ActPoint (FromAxisAngle (V 0 0 1) pi) (V 0 0 0))"
  by (simp add: ctor_defs motor_defs quat_defs vec_defs Let_def)

text \<open>
  C1 (amended): for all motors \<open>a\<close>, \<open>b\<close> whose second factor has a rotation part \<open>b.r\<close> of
  unit norm, and every point \<open>p\<close>, \<open>(a.Mul(b)).ActPoint(p) = a.ActPoint(b.ActPoint(p))\<close>:
  on points the product applies \<open>b\<close>'s motion first and then \<open>a\<close>'s.
\<close>

theorem Mul_ActPoint_composition:
  assumes "quat_Norm (mr b) = 1"
  shows "ActPoint (Mul a b) p = ActPoint a (ActPoint b p)"
proof -
  have "quat_N2 (mr b) = 1"
    using assms by (simp add: quat_Norm_unit_iff)
  then have "ActPoint (Mul a b) p = Add (ActDir a (ActPoint b p)) (transl a)"
    by (simp add: ActPoint_Mul_gen Scale_one)
  then show ?thesis
    by (simp add: ActPoint_split [of a])
qed

theorem Mul_ActPoint_composition_witness:
  "quat_Norm (mr (Translator (V 1 0 0))) = 1 \<and>
   ActPoint (Mul (FromAxisAngle (V 0 0 1) pi) (Translator (V 1 0 0))) (V 0 0 0)
     = ActPoint (FromAxisAngle (V 0 0 1) pi) (ActPoint (Translator (V 1 0 0)) (V 0 0 0))"
proof -
  have h: "quat_Norm (mr (Translator (V 1 0 0))) = 1"
    by (simp add: quat_Norm_def Translator_def mkq_def)
  from h Mul_ActPoint_composition [OF h] show ?thesis by blast
qed

text \<open>
  The hypothesis on \<open>b.r\<close> in the amended C1 cannot be dropped: a rotation built on the
  zero axis with angle \<open>pi\<close> has the zero quaternion as rotation part, and composing a
  translator with it loses the translation.
\<close>

lemma Mul_ActPoint_unit_norm_needed:
  "ActPoint (Mul (Translator (V 1 0 0)) (FromAxisAngle (V 0 0 0) pi)) (V 0 0 0)
     \<noteq> ActPoint (Translator (V 1 0 0)) (ActPoint (FromAxisAngle (V 0 0 0) pi) (V 0 0 0))"
  by (simp add: ctor_defs motor_defs quat_defs vec_defs Let_def)

text \<open>
  C2: if the rotation quaternions of \<open>a\<close> and \<open>b\<close> have unit norm, then so has the rotation
  quaternion of \<open>a.Mul(b)\<close>; \<open>Mul\<close> does not renormalise.
\<close>

theorem Mul_preserves_unit_norm:
  assumes "quat_Norm (mr a) = 1" and "quat_Norm (mr b) = 1"
  shows "quat_Norm (mr (Mul a b)) = 1"
proof -
  have "quat_N2 (mr (Mul a b)) = quat_N2 (mr a) * quat_N2 (mr b)"
    by (simp add: Mul_def Let_def quat_N2_Mul)
  with assms show ?thesis
    by (simp add: quat_Norm_unit_iff)
qed

theorem Mul_preserves_unit_norm_witness:
  "quat_Norm (mr (FromAxisAngle (V 0 0 1) pi)) = 1 \<and>
   quat_Norm (mr (Translator (V 1 0 0))) = 1 \<and>
   quat_Norm (mr (Mul (FromAxisAngle (V 0 0 1) pi) (Translator (V 1 0 0)))) = 1"
proof -
  have h1: "quat_Norm (mr (FromAxisAngle (V 0 0 1) pi)) = 1"
    by (simp add: ctor_defs quat_defs vec_defs Let_def)
  have h2: "quat_Norm (mr (Translator (V 1 0 0))) = 1"
    by (simp add: quat_Norm_def Translator_def mkq_def)
  from h1 h2 Mul_preserves_unit_norm [OF h1 h2] show ?thesis by blast
qed

subsection \<open>Inverse\<close>

text \<open>
  C3: for every motor \<open>m\<close> whose rotation quaternion has unit norm, \<open>m.Mul(m.Inv())\<close> is
  \<open>Identity()\<close>, and \<open>m.Inv().ActPoint(m.ActPoint(p)) = p\<close> for every point \<open>p\<close>.
\<close>

theorem Inv_law:
  assumes "quat_Norm (mr m) = 1"
  shows "Mul m (Inv m) = Identity \<and> ActPoint (Inv m) (ActPoint m p) = p"
proof
  have n: "quat_N2 (mr m) = 1"
    using assms by (simp add: quat_Norm_unit_iff)
  have "mr (Mul m (Inv m)) = mkq 1 0 0 0"
    by (simp add: Mul_Inv_mr n)
  moreover have "md (Mul m (Inv m)) = mkq 0 0 0 0"
    by (simp add: Mul_Inv_md n Let_def)
  ultimately show "Mul m (Inv m) = Identity"
    by (cases "Mul m (Inv m)") (simp add: Identity_def)
  show "ActPoint (Inv m) (ActPoint m p) = p"
    by (simp add: Inv_ActPoint_gen n Scale_one)
qed

theorem Inv_law_witness:
  "quat_Norm (mr (Mul (Translator (V 1 2 3)) (FromAxisAngle (V 0 0 1) pi))) = 1 \<and>
   Mul (Mul (Translator (V 1 2 3)) (FromAxisAngle (V 0 0 1) pi))
       (Inv (Mul (Translator (V 1 2 3)) (FromAxisAngle (V 0 0 1) pi))) = Identity \<and>
   ActPoint (Inv (Mul (Translator (V 1 2 3)) (FromAxisAngle (V 0 0 1) pi)))
     (ActPoint (Mul (Translator (V 1 2 3)) (FromAxisAngle (V 0 0 1) pi)) (V 4 5 6)) = V 4 5 6"
proof -
  have h: "quat_Norm (mr (Mul (Translator (V 1 2 3)) (FromAxisAngle (V 0 0 1) pi))) = 1"
    by (simp add: ctor_defs motor_defs quat_defs vec_defs Let_def)
  from h Inv_law [OF h, of "V 4 5 6"] show ?thesis by blast
qed

subsection \<open>Rigidity\<close>

text \<open>
  C4: for every motor \<open>m\<close> whose rotation quaternion has unit norm and all points \<open>p\<close>, \<open>q\<close>,
  \<open>Norm(m.ActPoint(p) - m.ActPoint(q)) = Norm(p - q)\<close>.
\<close>

theorem ActPoint_preserves_distance:
  assumes "quat_Norm (mr m) = 1"
  shows "Norm (Sub (ActPoint m p) (ActPoint m q)) = Norm (Sub p q)"
proof -
  have "quat_N2 (mr m) = 1"
    using assms by (simp add: quat_Norm_unit_iff)
  then have "Dot (ActDir m (Sub p q)) (ActDir m (Sub p q)) = Dot (Sub p q) (Sub p q)"
    by (simp add: ActDir_Dot)
  then show ?thesis
    by (simp add: Norm_def ActPoint_Sub)
qed

theorem ActPoint_preserves_distance_witness:
  "quat_Norm (mr (Mul (Translator (V 1 2 3)) (FromAxisAngle (V 0 0 1) pi))) = 1 \<and>
   Norm (Sub (ActPoint (Mul (Translator (V 1 2 3)) (FromAxisAngle (V 0 0 1) pi)) (V 3 0 0))
             (ActPoint (Mul (Translator (V 1 2 3)) (FromAxisAngle (V 0 0 1) pi)) (V 0 4 0)))
     = Norm (Sub (V 3 0 0) (V 0 4 0))"
proof -
  have h: "quat_Norm (mr (Mul (Translator (V 1 2 3)) (FromAxisAngle (V 0 0 1) pi))) = 1"
    by (simp add: ctor_defs motor_defs quat_defs vec_defs Let_def)
  from h ActPoint_preserves_distance [OF h] show ?thesis by blast
qed

subsection \<open>Rotations about a common axis\<close>

text \<open>
  C5 (as stated): for every axis vector and all angles,
  \<open>FromAxisAngle(axis, t1).Mul(FromAxisAngle(axis, t2)) = FromAxisAngle(axis, t1 + t2)\<close>.
  This fails at the zero axis, which \<open>Normalized\<close> leaves unchanged: both factors are then
  \<open>(cos (t/2), 0, 0, 0)\<close>, and for \<open>t1 = t2 = pi\<close> the product has scalar part \<open>0\<close> while
  the rotation by \<open>2 pi\<close> has scalar part \<open>-1\<close>.
\<close>

theorem FromAxisAngle_Mul_zero_axis_counterexample:
  "Mul (FromAxisAngle (V 0 0 0) pi) (FromAxisAngle (V 0 0 0) pi)
     \<noteq> FromAxisAngle (V 0 0 0) (pi + pi)"
  by (simp add: ctor_defs motor_defs quat_defs vec_defs Let_def)

text \<open>
  C5 (amended): for every nonzero axis vector and all angles \<open>t1\<close>, \<open>t2\<close>,
  \<open>FromAxisAngle(axis, t1).Mul(FromAxisAngle(axis, t2)) = FromAxisAngle(axis, t1 + t2)\<close>.
\<close>

theorem FromAxisAngle_Mul_same_axis:
  assumes "axis \<noteq> V 0 0 0"
  shows "Mul (FromAxisAngle axis t1) (FromAxisAngle axis t2) = FromAxisAngle axis (t1 + t2)"
  using assms by (simp add: FromAxisAngle_Mul Dot_Normalized nonzero_Norm)

theorem FromAxisAngle_Mul_same_axis_witness:
  "V 0 0 2 \<noteq> V 0 0 0 \<and>
   Mul (FromAxisAngle (V 0 0 2) pi) (FromAxisAngle (V 0 0 2) (pi / 3))
     = FromAxisAngle (V 0 0 2) (pi + pi / 3)"
proof -
  have h: "V 0 0 2 \<noteq> V 0 0 0"
    by (simp add: V_def)
  from h FromAxisAngle_Mul_same_axis [OF h] show ?thesis by blast
qed

subsection \<open>Screws of zero pitch\<close>

text \<open>
  C6 (as stated): for every point \<open>p\<close>, axis \<open>u\<close> and angle \<open>theta\<close>,
  \<open>Screw(p, u, theta, 0).ActPoint(p) = p\<close>.  This fails at the zero axis: the rotation
  part is then \<open>(cos (theta/2), 0, 0, 0)\<close>, and for \<open>theta = pi\<close> the point \<open>(1, 0, 0)\<close> is
  sent to the origin.
\<close>

theorem Screw_zero_axis_counterexample:
  "ActPoint (Screw (V 1 0 0) (V 0 0 0) pi 0) (V 1 0 0) \<noteq> V 1 0 0"
  by (simp add: Screw_def ctor_defs motor_defs quat_defs vec_defs Let_def)

text \<open>
  C6 (amended): for every point \<open>p\<close>, every nonzero axis vector \<open>u\<close> and every angle
  \<open>theta\<close>, \<open>Screw(p, u, theta, 0).ActPoint(p) = p\<close>.
\<close>

theorem Screw_zero_pitch_fixes_axis_point:
  assumes "u \<noteq> V 0 0 0"
  shows "ActPoint (Screw p u theta 0) p = p"
proof -
  have n: "Norm u \<noteq> 0"
    using assms by (rule nonzero_Norm)
  have "Normalized (Normalized u) = Normalized u"
    by (simp add: Normalized_unit Norm_Normalized n)
  then have "Dot (Normalized (Normalized u)) (Normalized (Normalized u)) = 1"
    by (simp add: Dot_Normalized n)
  then have "quat_N2 (mr (FromAxisAngle (Normalized u) theta)) = 1"
    by (rule FromAxisAngle_N2)
  then show ?thesis
    by (simp add: Screw_zero_pitch_act Scale_one)
qed

theorem Screw_zero_pitch_fixes_axis_point_witness:
  "V 0 0 2 \<noteq> V 0 0 0 \<and> ActPoint (Screw (V 1 2 3) (V 0 0 2) (pi / 3) 0) (V 1 2 3) = V 1 2 3"
proof -
  have h: "V 0 0 2 \<noteq> V 0 0 0"
    by (simp add: V_def)
  from h Screw_zero_pitch_fixes_axis_point [OF h] show ?thesis by blast
qed

subsection \<open>Identity and translators\<close>

text \<open>
  C7: for every motor \<open>m\<close>, \<open>Identity().Mul(m) = m\<close> and \<open>m.Mul(Identity()) = m\<close>.
\<close>

theorem Identity_neutral: "Mul Identity m = m \<and> Mul m Identity = m"
  by (simp add: motor_defs quat_defs Let_def)

text \<open>
  C10: for every translation vector \<open>t\<close> and every point \<open>p\<close>,
  \<open>Translator(t).ActPoint(p) = p.Add(t)\<close>.
\<close>

theorem Translator_ActPoint: "ActPoint (Translator t) p = Add p t"
  by (simp add: motor_defs quat_defs vec_defs Let_def)

subsection \<open>Degenerate axes and Jacobian columns\<close>

text \<open>
  C8: \<open>Normalized\<close> returns the zero vector unchanged, and \<open>RevoluteColumn\<close> with a zero
  axis direction is the zero vector for every axis point and toe.  (The functions have no
  error result in the source, so there is no error to signal.)
\<close>

theorem zero_axis_degrades_to_zero:
  "Normalized (V 0 0 0) = V 0 0 0 \<and> RevoluteColumn axisPoint (V 0 0 0) toe = V 0 0 0"
  by (simp add: RevoluteColumn_def Let_def Normalized_zero) (simp add: vec_defs)

text \<open>
  C9: \<open>PrismaticColumn(axis)\<close> has unit norm for every nonzero \<open>axis\<close>, and
  \<open>RevoluteColumn(c, u, toe)\<close> is orthogonal to \<open>toe - c\<close> for every unit vector \<open>u\<close>.
\<close>

theorem Jacobian_sanity:
  "(axis \<noteq> V 0 0 0 \<longrightarrow> Norm (PrismaticColumn axis) = 1) \<and>
   (Norm u = 1 \<longrightarrow> Dot (RevoluteColumn c u toe) (Sub toe c) = 0)"
  by (simp add: PrismaticColumn_def RevoluteColumn_def Let_def
        Norm_Normalized nonzero_Norm Cross_orth)

theorem Jacobian_sanity_witness:
  "V 3 4 0 \<noteq> V 0 0 0 \<and> Norm (PrismaticColumn (V 3 4 0)) = 1 \<and>
   Norm (V 0 0 1) = 1 \<and> Dot (RevoluteColumn (V 1 2 3) (V 0 0 1) (V 4 6 5)) (Sub (V 4 6 5) (V 1 2 3)) = 0"
proof -
  have h1: "V 3 4 0 \<noteq> V 0 0 0"
    by (simp add: V_def)
  have h2: "Norm (V 0 0 1) = 1"
    by (simp add: Norm_def Dot_def V_def)
  from h1 h2 Jacobian_sanity [of "V 3 4 0" "V 0 0 1" "V 1 2 3" "V 4 6 5"]
  show ?thesis by blast
qed

end
